theory Spec2Isabelle
  imports Complex_Main "HOL-Library.Char_ord" "HOL-Library.List_Lexorder"
begin

section \<open>The RFM scorer of \<open>rfm_analysis_app.py\<close>\<close>

text \<open>
  The script reads a CSV of purchases into a pandas frame and adds nine derived columns
  (lines 44 to 100). The frame is modelled as a list of rows in index order; a cell that is
  missing in the CSV (NaN, NaT) is \<open>None\<close>. Timestamps are integers counting nanoseconds,
  as in pandas' \<open>datetime64[ns]\<close>. A numeric cell is a rational number: every 64-bit integer
  and every finite binary64 number is one, and comparing two cells is exact. Columns whose
  cells are not of the expected kind (a text cell in \<open>TransactionAmount\<close>, an infinite
  amount) are outside the model.

  The pandas operations the script calls (\<open>groupby\<close>, \<open>count\<close>, \<open>sum\<close>, \<open>merge\<close>,
  \<open>nunique\<close>, \<open>cut\<close>, \<open>qcut\<close>, \<open>astype\<close>) are library code; each is a definition of its
  own below, following the library's documented behaviour for the arguments the script
  passes, and the script's own lines are composed from them in the order of the source.
\<close>

subsection \<open>Frames\<close>

record txn =
  CustomerID :: "string option"
  PurchaseDate :: "int option"
  OrderID :: "string option"
  TransactionAmount :: "rat option"

record metrics_row = txn +
  Recency :: "int option"
  Frequency :: "nat option"
  MonetaryValue :: "rat option"

record scored_row = metrics_row +
  RecencyScore :: int
  FrequencyScore :: int
  MonetaryScore :: int
  RFM_Score :: int

record rfm_row = scored_row +
  Value_Segment :: "string option"
  RFM_Customer_Segments :: string

datatype error = ValueError

subsection \<open>The arithmetic of the library\<close>

text \<open>
  Three computations of the library produce new numbers from the cells of a column, and
  none of them is exact: the sum of a group (a sum of 64-bit integers wraps around, a sum of
  binary64 numbers is rounded), the evenly spaced edges of \<open>pd.cut\<close> and the interpolated
  quantile edges of \<open>pd.qcut\<close> (both computed in binary64). Their results depend on the
  column type and on the order of the library's floating-point operations, which are not
  part of the script. They are therefore three parameters of the model, collected in one
  record: the sum of a list of cells, the \<open>n + 1\<close> edges of \<open>pd.cut\<close> for a list of values
  and \<open>n\<close> bins, and the \<open>q + 1\<close> edges of \<open>pd.qcut\<close> for a list of values and \<open>q\<close>
  quantiles. A theorem below holds for every value of these parameters, except where it
  states a condition on them.
\<close>

record arith =
  column_sum :: "rat list \<Rightarrow> rat"
  cut_edges :: "rat list \<Rightarrow> nat \<Rightarrow> rat list"
  qcut_edges :: "rat list \<Rightarrow> nat \<Rightarrow> rat list"

subsection \<open>The clock and Recency (line 52)\<close>

text \<open>\<open>datetime.now()\<close> reads the wall clock. A run is given the readings of its clock,
  one for each call in the order of the calls, and counts the calls it has made: call
  number \<open>k\<close> returns reading \<open>k\<close>.\<close>

type_synonym clock = "nat \<Rightarrow> int"

definition datetime_now :: "clock \<Rightarrow> nat \<Rightarrow> int \<times> nat" where
  "datetime_now clock calls = (clock calls, calls + 1)"

text \<open>\<open>(now - PurchaseDate).dt.days\<close>: the whole days of the difference, rounded towards
  minus infinity; a missing date gives a missing recency.\<close>

definition ns_per_day :: int where
  "ns_per_day = 86400000000000"

definition dt_days :: "int \<Rightarrow> int option \<Rightarrow> int option" where
  "dt_days now d = map_option (\<lambda>t. (now - t) div ns_per_day) d"

subsection \<open>Group-by aggregates and left merge (lines 55 to 62)\<close>

text \<open>\<open>groupby(key)\<close>: one group per distinct key that is present, in sorted key order;
  rows whose key is missing belong to no group.\<close>

definition groupby :: "('r \<Rightarrow> string option) \<Rightarrow> 'r list \<Rightarrow> (string \<times> 'r list) list" where
  "groupby key df =
     map (\<lambda>k. (k, filter (\<lambda>r. key r = Some k) df)) (sort (remdups (List.map_filter key df)))"

text \<open>The cells of a column that are present, in row order.\<close>

definition notna :: "'a option list \<Rightarrow> 'a list" where
  "notna xs = List.map_filter id xs"

text \<open>\<open>count()\<close> counts the cells that are present; \<open>sum()\<close> is the library's sum of the
  cells that are present.\<close>

definition count_notna :: "'a option list \<Rightarrow> nat" where
  "count_notna xs = length (filter (\<lambda>x. x \<noteq> None) xs)"

definition sum_skipna :: "arith \<Rightarrow> rat option list \<Rightarrow> rat" where
  "sum_skipna K xs = column_sum K (notna xs)"

text \<open>\<open>left.merge(right, on=key, how='left')\<close>: every left row, in order, once for each
  right row with the same key, and once with a missing value when there is none.\<close>

definition merge_left :: "('r \<Rightarrow> 'k option) \<Rightarrow> 'r list \<Rightarrow> ('k \<times> 'v) list \<Rightarrow> ('r \<times> 'v option) list" where
  "merge_left key left right =
     concat (map (\<lambda>r. case filter (\<lambda>(k, v). key r = Some k) right of
                          [] \<Rightarrow> [(r, None)]
                        | ms \<Rightarrow> map (\<lambda>(k, v). (r, Some v)) ms) left)"

definition frequency_data :: "(txn \<times> int option) list \<Rightarrow> (string \<times> nat) list" where
  "frequency_data data =
     map (\<lambda>(c, g). (c, count_notna (map (OrderID \<circ> fst) g))) (groupby (CustomerID \<circ> fst) data)"

definition monetary_data :: "arith \<Rightarrow> (txn \<times> int option) list \<Rightarrow> (string \<times> rat) list" where
  "monetary_data K data =
     map (\<lambda>(c, g). (c, sum_skipna K (map (TransactionAmount \<circ> fst) g))) (groupby (CustomerID \<circ> fst) data)"

text \<open>Lines 52 to 62, for the instant \<open>now\<close> that the one call of \<open>datetime.now()\<close> on
  line 52 returned.\<close>

definition metrics_data :: "arith \<Rightarrow> int \<Rightarrow> txn list \<Rightarrow> metrics_row list" where
  "metrics_data K now data0 =
     (let data1 = map (\<lambda>r. (r, dt_days now (PurchaseDate r))) data0;
          data2 = merge_left (CustomerID \<circ> fst) data1 (frequency_data data1);
          data3 = merge_left (CustomerID \<circ> fst \<circ> fst) data2 (monetary_data K data1)
      in map (\<lambda>(((r, rc), f), m). txn.extend r (metrics_row.fields rc f m)) data3)"

subsection \<open>Binning: \<open>pd.cut\<close> and \<open>pd.qcut\<close>\<close>

definition nunique :: "rat option list \<Rightarrow> nat" where
  "nunique s = length (remdups (notna s))"

text \<open>\<open>bins.searchsorted(x, side='left')\<close> on ascending edges: the number of edges below \<open>x\<close>.
  (On edges that do not ascend the library's binary search may return another position;
  every statement below about the position of a value among the edges assumes ascending
  edges.)\<close>

definition searchsorted_left :: "rat list \<Rightarrow> rat \<Rightarrow> nat" where
  "searchsorted_left bins x = length (takeWhile (\<lambda>b. b < x) bins)"

text \<open>The library's \<open>_bins_to_cuts\<close> with \<open>right=True\<close>, \<open>duplicates='raise'\<close> and a list of
  labels: it raises on repeated edges, on repeated labels and on a label count that is not
  one less than the edge count; a value in \<open>(bins[i-1], bins[i]]\<close> gets label \<open>i - 1\<close>, a
  value outside all intervals and a missing value get no label.\<close>

definition bins_to_cuts :: "rat option list \<Rightarrow> rat list \<Rightarrow> 'l list \<Rightarrow> bool \<Rightarrow> error + 'l option list" where
  "bins_to_cuts x bins labels include_lowest =
     (if \<not> distinct bins \<and> length bins \<noteq> 2 then Inl ValueError
      else if \<not> distinct labels then Inl ValueError
      else if length labels \<noteq> length bins - 1 then Inl ValueError
      else Inr (map (\<lambda>v. case v of
                      None \<Rightarrow> None
                    | Some a \<Rightarrow>
                        (let ids = (if include_lowest \<and> a = bins ! 0 then 1
                                    else searchsorted_left bins a)
                         in if ids = length bins \<or> ids = 0 then None
                            else Some (labels ! (ids - 1)))) x))"

text \<open>The library's \<open>_nbins_to_bins\<close>: it raises on a bin count below 1 and on a series
  with no value present, and otherwise computes the edges from the values.\<close>

definition nbins_to_bins :: "arith \<Rightarrow> rat list \<Rightarrow> nat \<Rightarrow> error + rat list" where
  "nbins_to_bins K xs nbins =
     (if nbins < 1 then Inl ValueError
      else if xs = [] then Inl ValueError
      else Inr (cut_edges K xs nbins))"

definition pd_cut :: "arith \<Rightarrow> rat option list \<Rightarrow> nat \<Rightarrow> 'l list \<Rightarrow> error + 'l option list" where
  "pd_cut K x nbins labels =
     (case nbins_to_bins K (notna x) nbins of
        Inl e \<Rightarrow> Inl e
      | Inr bins \<Rightarrow> bins_to_cuts x bins labels False)"

text \<open>\<open>pd.qcut(x, q, labels)\<close>: the edges are computed from the values that are present,
  and the lowest edge belongs to the first interval. With no value present every edge is
  NaN, which the library rejects as repeated edges.\<close>

definition pd_qcut :: "arith \<Rightarrow> rat option list \<Rightarrow> nat \<Rightarrow> 'l list \<Rightarrow> error + 'l option list" where
  "pd_qcut K x q labels =
     (if notna x = [] then Inl ValueError
      else bins_to_cuts x (qcut_edges K (notna x) q) labels True)"

text \<open>\<open>.astype(int)\<close> on the labelled column raises \<open>ValueError\<close> when a cell has no label.\<close>

definition astype_int :: "int option list \<Rightarrow> error + int list" where
  "astype_int xs = (if None \<in> set xs then Inl ValueError else Inr (map the xs))"

subsection \<open>Scores (lines 65 to 88)\<close>

definition recency_scores :: "int list" where
  "recency_scores = [5, 4, 3, 2, 1]"

definition frequency_scores :: "int list" where
  "frequency_scores = [1, 2, 3, 4, 5]"

definition monetary_scores :: "int list" where
  "monetary_scores = [1, 2, 3, 4, 5]"

text \<open>The body of the \<open>try\<close> block of \<open>create_rfm_score\<close>.\<close>

definition try_rfm_score :: "arith \<Rightarrow> rat option list \<Rightarrow> int list \<Rightarrow> nat \<Rightarrow> error + int list" where
  "try_rfm_score K series score_labels q =
     (let n_quantiles = min q (nunique series)
      in if n_quantiles < q then
           (case pd_cut K series n_quantiles (take n_quantiles score_labels) of
              Inl e \<Rightarrow> Inl e | Inr c \<Rightarrow> astype_int c)
         else
           (case pd_qcut K series n_quantiles (take n_quantiles score_labels) of
              Inl e \<Rightarrow> Inl e | Inr c \<Rightarrow> astype_int c))"

definition create_rfm_score :: "arith \<Rightarrow> rat option list \<Rightarrow> int list \<Rightarrow> nat \<Rightarrow> int list" where
  "create_rfm_score K series score_labels q =
     (case try_rfm_score K series score_labels q of
        Inr scores \<Rightarrow> scores
      | Inl ValueError \<Rightarrow> replicate (length series) 0)"

definition scored_data :: "arith \<Rightarrow> int \<Rightarrow> txn list \<Rightarrow> scored_row list" where
  "scored_data K now data0 =
     (let data = metrics_data K now data0;
          recencyScore = create_rfm_score K (map (map_option of_int \<circ> Recency) data) recency_scores 5;
          frequencyScore = create_rfm_score K (map (map_option of_nat \<circ> Frequency) data) frequency_scores 5;
          monetaryScore = create_rfm_score K (map MonetaryValue data) monetary_scores 5
      in map (\<lambda>(r, a, b, c). metrics_row.extend r (scored_row.fields a b c (a + b + c)))
           (zip data (zip recencyScore (zip frequencyScore monetaryScore))))"

subsection \<open>Segments (lines 91 to 100)\<close>

definition segment_labels :: "string list" where
  "segment_labels = [''Low-Value'', ''Mid-Value'', ''High-Value'']"

text \<open>Lines 95 to 100: the column starts as the empty string and five masked assignments
  follow in this order, each overwriting the cells where its mask holds.\<close>

definition segment_rules :: "((int \<Rightarrow> bool) \<times> string) list" where
  "segment_rules =
     [(\<lambda>s. s \<ge> 9, ''Champions''),
      (\<lambda>s. s \<ge> 6 \<and> s < 9, ''Potential Loyalists''),
      (\<lambda>s. s \<ge> 5 \<and> s < 6, ''At Risk Customers''),
      (\<lambda>s. s \<ge> 4 \<and> s < 5, ''Can't Lose''),
      (\<lambda>s. s < 4, ''Lost'')]"

definition loc_assign :: "int \<Rightarrow> (int \<Rightarrow> bool) \<times> string \<Rightarrow> string \<Rightarrow> string" where
  "loc_assign s rule cell = (if fst rule s then snd rule else cell)"

definition rfm_customer_segment :: "int \<Rightarrow> string" where
  "rfm_customer_segment s = fold (loc_assign s) segment_rules ''''"

text \<open>The whole of lines 52 to 100 for the instant \<open>now\<close> read on line 52. The \<open>qcut\<close> of
  line 92 is outside any \<open>try\<close>: when it raises, the analysis stops there.\<close>

definition rfm_analysis :: "arith \<Rightarrow> int \<Rightarrow> txn list \<Rightarrow> error + rfm_row list" where
  "rfm_analysis K now data0 =
     (let data = scored_data K now data0
      in case pd_qcut K (map (\<lambda>r. Some (of_int (RFM_Score r))) data) 3 segment_labels of
           Inl e \<Rightarrow> Inl e
         | Inr vs \<Rightarrow>
             Inr (map (\<lambda>(r, v). scored_row.extend r
                         (rfm_row.fields v (rfm_customer_segment (RFM_Score r))))
                    (zip data vs)))"

text \<open>A run of the script on an uploaded table: the only call of \<open>datetime.now()\<close> is the
  one on line 52, evaluated once for the whole column. The run returns what the analysis
  returns and the number of clock readings it has consumed.\<close>

definition run_analysis :: "arith \<Rightarrow> clock \<Rightarrow> txn list \<Rightarrow> (error + rfm_row list) \<times> nat" where
  "run_analysis K clock data0 =
     (let (now, calls) = datetime_now clock 0
      in (rfm_analysis K now data0, calls))"

subsection \<open>Arithmetic without rounding\<close>

text \<open>
  One value of the three parameters: the sum, the edges of \<open>pd.cut\<close> and the edges of
  \<open>pd.qcut\<close> as the library's documentation defines them, computed in exact rational
  arithmetic. It is not the arithmetic of the library, which rounds; it serves to evaluate
  the model on the concrete tables of this file, where the outcomes stated do not depend
  on rounding: the sums stated are exact in binary floating point, and the scores and
  labels stated belong to values that the rounding of an edge cannot move to another
  bucket.

  \<open>np.linspace(a, b, n + 1)\<close> is the \<open>n + 1\<close> evenly spaced points from \<open>a\<close> to \<open>b\<close>; the
  quantile is the sample quantile with linear interpolation between the two nearest ranks;
  the edges of \<open>pd.cut\<close> are \<open>nbins\<close> equal-width intervals over the range of the values,
  the lowest edge moved down by 0.1 percent of the range, and a constant series gets a
  range of 0.1 percent around its value.
\<close>

definition exact_linspace :: "rat \<Rightarrow> rat \<Rightarrow> nat \<Rightarrow> rat list" where
  "exact_linspace a b n = map (\<lambda>i. a + (b - a) * of_nat i / of_nat n) [0..<n + 1]"

definition exact_quantile :: "rat list \<Rightarrow> rat \<Rightarrow> rat" where
  "exact_quantile vs p =
     (let s = sort vs;
          h = of_nat (length s - 1) * p;
          lo = nat \<lfloor>h\<rfloor>;
          hi = nat \<lceil>h\<rceil>
      in s ! lo + (h - of_int \<lfloor>h\<rfloor>) * (s ! hi - s ! lo))"

definition exact_cut_edges :: "rat list \<Rightarrow> nat \<Rightarrow> rat list" where
  "exact_cut_edges xs nbins =
     (let mn = Min (set xs); mx = Max (set xs)
      in if mn = mx then
           exact_linspace (mn - (if mn \<noteq> 0 then 1 / 1000 * \<bar>mn\<bar> else 1 / 1000))
                          (mx + (if mx \<noteq> 0 then 1 / 1000 * \<bar>mx\<bar> else 1 / 1000)) nbins
         else
           (let bins = exact_linspace mn mx nbins;
                adj = (mx - mn) * (1 / 1000)
            in bins[0 := bins ! 0 - adj]))"

definition exact_qcut_edges :: "rat list \<Rightarrow> nat \<Rightarrow> rat list" where
  "exact_qcut_edges xs q = map (exact_quantile xs) (exact_linspace 0 1 q)"

definition exact_arith :: arith where
  "exact_arith =
     \<lparr>column_sum = sum_list, cut_edges = exact_cut_edges, qcut_edges = exact_qcut_edges\<rparr>"

subsection \<open>The example table of the script (lines 22 to 28)\<close>

definition mk_txn :: "string \<Rightarrow> int \<Rightarrow> string \<Rightarrow> rat \<Rightarrow> txn" where
  "mk_txn c d oid a =
     \<lparr>CustomerID = Some c, PurchaseDate = Some (d * ns_per_day), OrderID = Some oid,
      TransactionAmount = Some a\<rparr>"

text \<open>Dates are day numbers counted from 2023-01-01 (day 0), at midnight.\<close>

definition example_data :: "txn list" where
  "example_data =
     [mk_txn ''C001'' 129 ''O001'' (15075 / 100),
      mk_txn ''C002'' 165 ''O002'' 200,
      mk_txn ''C001'' 181 ''O003'' 350,
      mk_txn ''C003'' 114 ''O004'' (1255 / 10),
      mk_txn ''C002'' 139 ''O005'' 180,
      mk_txn ''C004'' 88 ''O006'' (2755 / 10),
      mk_txn ''C001'' 195 ''O007'' 120,
      mk_txn ''C003'' 221 ''O008'' 300,
      mk_txn ''C005'' 243 ''O009'' 95]"

definition example_now :: int where
  "example_now = 365 * ns_per_day + 1234567"

text \<open>A clock that first reads \<open>start\<close> and advances by \<open>step\<close> from one reading to the next.\<close>

definition ticking_clock :: "int \<Rightarrow> int \<Rightarrow> clock" where
  "ticking_clock start step k = start + step * int k"

subsection \<open>Vocabulary of the specification\<close>

text \<open>The rows of a customer, the rows of a customer that carry an order id, the order ids
  of a customer, and the amounts of a customer that are present, in row order.\<close>

definition customer_rows :: "txn list \<Rightarrow> string \<Rightarrow> txn list" where
  "customer_rows data c = filter (\<lambda>t. CustomerID t = Some c) data"

definition order_rows :: "txn list \<Rightarrow> string \<Rightarrow> txn list" where
  "order_rows data c = filter (\<lambda>t. OrderID t \<noteq> None) (customer_rows data c)"

definition order_ids :: "txn list \<Rightarrow> string \<Rightarrow> string list" where
  "order_ids data c = notna (map OrderID (customer_rows data c))"

definition amounts :: "txn list \<Rightarrow> string \<Rightarrow> rat list" where
  "amounts data c = notna (map TransactionAmount (customer_rows data c))"


text \<open>One customer with two rows of the same order.\<close>

definition repeated_order_data :: "txn list" where
  "repeated_order_data =
     [mk_txn ''C001'' 10 ''O001'' 10,
      mk_txn ''C001'' 10 ''O001'' 20]"

text \<open>The band table of the specification (section 4.1, step 7), first match first.\<close>

definition band_table :: "int \<Rightarrow> string" where
  "band_table s =
     (if s \<ge> 9 then ''Champions''
      else if 6 \<le> s \<and> s < 9 then ''Potential Loyalists''
      else if 5 \<le> s \<and> s < 6 then ''At Risk Customers''
      else if 4 \<le> s \<and> s < 5 then ''Can't Lose''
      else ''Lost'')"




text \<open>Two customers with one purchase each: the more recent purchase is the larger.\<close>

definition small_data :: "txn list" where
  "small_data =
     [mk_txn ''C001'' 300 ''O001'' 200,
      mk_txn ''C002'' 100 ''O002'' 50]"

text \<open>One customer with seven purchases of 10, made 1, 1, 1, 2, 3, 4 and 5 days before
  \<open>example_now\<close>; and the same table with the first two purchases made 6 and 7 days before.\<close>

definition stale_data :: "txn list" where
  "stale_data =
     [mk_txn ''C001'' 364 ''O001'' 10,
      mk_txn ''C001'' 364 ''O002'' 10,
      mk_txn ''C001'' 364 ''O003'' 10,
      mk_txn ''C001'' 363 ''O004'' 10,
      mk_txn ''C001'' 362 ''O005'' 10,
      mk_txn ''C001'' 361 ''O006'' 10,
      mk_txn ''C001'' 360 ''O007'' 10]"

definition fresh_data :: "txn list" where
  "fresh_data = stale_data[0 := mk_txn ''C001'' 359 ''O001'' 10, 1 := mk_txn ''C001'' 358 ''O002'' 10]"



section \<open>Properties\<close>

subsection \<open>Aggregates and merges\<close>

lemma filter_key_unique:
  "distinct (map fst xs) \<Longrightarrow>
   filter (\<lambda>(k, v). a = Some k) xs =
     (case a of None \<Rightarrow> [] | Some k \<Rightarrow> (case map_of xs k of None \<Rightarrow> [] | Some v \<Rightarrow> [(k, v)]))"
proof (induction xs)
  case Nil
  then show ?case by (simp split: option.splits)
next
  case (Cons x xs)
  obtain k v where x: "x = (k, v)" by (cases x)
  from Cons.prems have nk: "k \<notin> fst ` set xs" and d: "distinct (map fst xs)"
    by (simp_all add: x)
  from nk have none: "map_of xs k = None"
    by (simp add: map_of_eq_None_iff)
  show ?case
    using Cons.IH [OF d] none by (auto simp: x split: option.splits)
qed

text \<open>With unique keys on the right, a left merge is a lookup per left row.\<close>

lemma merge_left_unique:
  assumes "distinct (map fst right)"
  shows "merge_left key left right =
    map (\<lambda>r. (r, case key r of None \<Rightarrow> None | Some k \<Rightarrow> map_of right k)) left"
proof -
  have "\<And>r. (case filter (\<lambda>(k, v). key r = Some k) right of
                [] \<Rightarrow> [(r, None)]
              | ms \<Rightarrow> map (\<lambda>(k, v). (r, Some v)) ms) =
            [(r, case key r of None \<Rightarrow> None | Some k \<Rightarrow> map_of right k)]"
    by (simp add: filter_key_unique [OF assms] split: option.splits)
  then show ?thesis
    by (simp add: merge_left_def)
qed

lemma set_map_filter: "set (List.map_filter f xs) = {y. Some y \<in> f ` set xs}"
proof (induction xs)
  case Nil
  show ?case by (simp add: List.map_filter_simps)
next
  case (Cons x xs)
  show ?case
  proof (cases "f x")
    case None
    then show ?thesis using Cons by (auto simp: List.map_filter_simps)
  next
    case (Some y)
    then show ?thesis using Cons by (auto simp: List.map_filter_simps)
  qed
qed

lemma groupby_agg:
  "map (\<lambda>(c, g). (c, agg g)) (groupby key df) =
   map (\<lambda>k. (k, agg (filter (\<lambda>r. key r = Some k) df))) (sort (remdups (List.map_filter key df)))"
  by (simp add: groupby_def)

lemma groupby_agg_distinct: "distinct (map fst (map (\<lambda>(c, g). (c, agg g)) (groupby key df)))"
  by (simp add: groupby_def comp_def)

lemma map_of_groupby_agg:
  "map_of (map (\<lambda>(c, g). (c, agg g)) (groupby key df)) k =
     (if Some k \<in> key ` set df then Some (agg (filter (\<lambda>r. key r = Some k) df)) else None)"
proof -
  have "set (List.map_filter key df) = {k. Some k \<in> key ` set df}"
    by (rule set_map_filter)
  then have s: "set (sort (remdups (List.map_filter key df))) = {k. Some k \<in> key ` set df}"
    by simp
  show ?thesis
    unfolding groupby_agg
    by (simp add: map_of_map_restrict s restrict_map_def del: set_sort set_remdups)
qed

text \<open>Lines 52 to 62 row by row: each input row, in order, with its recency and with the
  count and the sum of its customer's group.\<close>

lemma metrics_data_eq:
  "metrics_data K now data =
     map (\<lambda>r. txn.extend r (metrics_row.fields (dt_days now (PurchaseDate r))
                 (map_option (\<lambda>c. count_notna (map OrderID (customer_rows data c))) (CustomerID r))
                 (map_option (\<lambda>c. sum_skipna K (map TransactionAmount (customer_rows data c)))
                    (CustomerID r)))) data"
proof -
  define data1 where "data1 = map (\<lambda>r. (r, dt_days now (PurchaseDate r))) data"
  have f: "\<And>k. filter (\<lambda>r. (CustomerID \<circ> fst) r = Some k) data1 =
             map (\<lambda>r. (r, dt_days now (PurchaseDate r))) (customer_rows data k)"
    by (simp add: data1_def customer_rows_def filter_map comp_def)
  have keys: "\<And>k. Some k \<in> (CustomerID \<circ> fst) ` set data1 \<longleftrightarrow> Some k \<in> CustomerID ` set data"
    by (force simp: data1_def)
  have fq: "\<And>k. map_of (frequency_data data1) k =
      (if Some k \<in> CustomerID ` set data
       then Some (count_notna (map OrderID (customer_rows data k))) else None)"
    unfolding frequency_data_def map_of_groupby_agg keys f
    by (simp add: comp_def)
  have mq: "\<And>k. map_of (monetary_data K data1) k =
      (if Some k \<in> CustomerID ` set data
       then Some (sum_skipna K (map TransactionAmount (customer_rows data k))) else None)"
    unfolding monetary_data_def map_of_groupby_agg keys f
    by (simp add: comp_def)
  have d1: "distinct (map fst (frequency_data data1))"
    unfolding frequency_data_def by (rule groupby_agg_distinct)
  have d2: "distinct (map fst (monetary_data K data1))"
    unfolding monetary_data_def by (rule groupby_agg_distinct)
  have "metrics_data K now data =
      map (\<lambda>(((r, rc), f), m). txn.extend r (metrics_row.fields rc f m))
        (merge_left (CustomerID \<circ> fst \<circ> fst)
          (merge_left (CustomerID \<circ> fst) data1 (frequency_data data1)) (monetary_data K data1))"
    by (simp add: metrics_data_def Let_def data1_def)
  also have "\<dots> = map (\<lambda>p. txn.extend (fst p) (metrics_row.fields (snd p)
                 (case CustomerID (fst p) of None \<Rightarrow> None | Some k \<Rightarrow> map_of (frequency_data data1) k)
                 (case CustomerID (fst p) of None \<Rightarrow> None | Some k \<Rightarrow> map_of (monetary_data K data1) k))) data1"
    by (simp add: merge_left_unique [OF d1] merge_left_unique [OF d2] comp_def case_prod_beta)
  also have "\<dots> = map (\<lambda>r. txn.extend r (metrics_row.fields (dt_days now (PurchaseDate r))
                 (map_option (\<lambda>c. count_notna (map OrderID (customer_rows data c))) (CustomerID r))
                 (map_option (\<lambda>c. sum_skipna K (map TransactionAmount (customer_rows data c)))
                    (CustomerID r)))) data"
    unfolding fq mq
    by (auto simp: data1_def comp_def split: option.splits intro: rev_image_eqI)
  finally show ?thesis .
qed

lemma txn_eta:
  "\<lparr>CustomerID = CustomerID r, PurchaseDate = PurchaseDate r, OrderID = OrderID r,
    TransactionAmount = TransactionAmount r\<rparr> = (r :: txn)"
  by (cases r) simp

lemma metrics_row_eta:
  "\<lparr>CustomerID = CustomerID r, PurchaseDate = PurchaseDate r, OrderID = OrderID r,
    TransactionAmount = TransactionAmount r, Recency = Recency r, Frequency = Frequency r,
    MonetaryValue = MonetaryValue r\<rparr> = (r :: metrics_row)"
  by (cases r) simp

lemma scored_row_eta:
  "\<lparr>CustomerID = CustomerID r, PurchaseDate = PurchaseDate r, OrderID = OrderID r,
    TransactionAmount = TransactionAmount r, Recency = Recency r, Frequency = Frequency r,
    MonetaryValue = MonetaryValue r, RecencyScore = RecencyScore r,
    FrequencyScore = FrequencyScore r, MonetaryScore = MonetaryScore r,
    RFM_Score = RFM_Score r\<rparr> = (r :: scored_row)"
  by (cases r) simp

lemma metrics_data_length: "length (metrics_data K now data) = length data"
  by (simp add: metrics_data_eq)

lemma metrics_data_source: "map txn.truncate (metrics_data K now data) = data"
  by (simp add: metrics_data_eq txn.defs metrics_row.defs comp_def txn_eta)

lemma count_notna_order_rows:
  "count_notna (map OrderID (customer_rows data c)) = length (order_rows data c)"
  by (simp add: count_notna_def order_rows_def comp_def)

lemma count_notna_order_ids:
  "count_notna (map OrderID (customer_rows data c)) = length (order_ids data c)"
  by (simp add: count_notna_def order_ids_def notna_def List.map_filter_def comp_def)

lemma sum_skipna_amounts:
  "sum_skipna K (map TransactionAmount (customer_rows data c)) = column_sum K (amounts data c)"
  by (simp add: sum_skipna_def amounts_def)

text \<open>The columns of a row of the frame after line 62, read off the input row it comes from.\<close>

lemma metrics_row_cols:
  assumes "r \<in> set (metrics_data K now data)"
  obtains t where "t \<in> set data" "CustomerID r = CustomerID t"
    "Recency r = dt_days now (PurchaseDate t)"
    "Frequency r = map_option (\<lambda>c. length (order_rows data c)) (CustomerID t)"
    "MonetaryValue r = map_option (\<lambda>c. column_sum K (amounts data c)) (CustomerID t)"
  using assms unfolding metrics_data_eq
  by (auto simp: txn.defs metrics_row.defs count_notna_order_rows sum_skipna_amounts)


subsection \<open>The frames after scoring and after segmentation\<close>

lemma bins_to_cuts_length: "bins_to_cuts x bins labels il = Inr c \<Longrightarrow> length c = length x"
  by (auto simp: bins_to_cuts_def split: if_splits)

lemma pd_cut_length: "pd_cut K x n labels = Inr c \<Longrightarrow> length c = length x"
  by (auto simp: pd_cut_def split: sum.splits dest: bins_to_cuts_length)

lemma pd_qcut_length: "pd_qcut K x q labels = Inr c \<Longrightarrow> length c = length x"
  by (auto simp: pd_qcut_def split: if_splits dest: bins_to_cuts_length)

lemma astype_int_length: "astype_int c = Inr scores \<Longrightarrow> length scores = length c"
  by (auto simp: astype_int_def split: if_splits)

lemma try_rfm_score_length: "try_rfm_score K s L q = Inr scores \<Longrightarrow> length scores = length s"
  by (auto simp: try_rfm_score_def Let_def split: if_splits sum.splits
      dest!: pd_cut_length pd_qcut_length astype_int_length)

lemma create_rfm_score_length: "length (create_rfm_score K s L q) = length s"
  by (cases "try_rfm_score K s L q")
     (auto simp: create_rfm_score_def dest: try_rfm_score_length split: error.splits)

lemma scored_data_metrics: "map metrics_row.truncate (scored_data K now data) = metrics_data K now data"
proof -
  have "\<And>(xs :: metrics_row list) (ys :: (int \<times> int \<times> int) list). length ys = length xs \<Longrightarrow>
     map metrics_row.truncate
       (map (\<lambda>(r, a, b, c). metrics_row.extend r (scored_row.fields a b c (a + b + c))) (zip xs ys)) = xs"
    by (simp add: comp_def case_prod_beta metrics_row.defs txn.defs scored_row.defs metrics_row_eta)
  then show ?thesis
    by (simp add: scored_data_def Let_def create_rfm_score_length)
qed

lemma rfm_analysis_scored:
  "rfm_analysis K now data = Inr out \<Longrightarrow> map scored_row.truncate out = scored_data K now data"
proof -
  assume a: "rfm_analysis K now data = Inr out"
  then obtain vs where vs: "pd_qcut K (map (\<lambda>r. Some (of_int (RFM_Score r))) (scored_data K now data)) 3 segment_labels = Inr vs"
    and out: "out = map (\<lambda>(r, v). scored_row.extend r
                         (rfm_row.fields v (rfm_customer_segment (RFM_Score r))))
                    (zip (scored_data K now data) vs)"
    by (auto simp: rfm_analysis_def Let_def split: sum.splits)
  from pd_qcut_length [OF vs] have l: "length vs = length (scored_data K now data)" by simp
  show ?thesis
    unfolding out using l
    by (simp add: comp_def case_prod_beta metrics_row.defs txn.defs scored_row.defs rfm_row.defs
        scored_row_eta)
qed

lemma rfm_analysis_metrics:
  "rfm_analysis K now data = Inr out \<Longrightarrow> map metrics_row.truncate out = metrics_data K now data"
proof -
  assume "rfm_analysis K now data = Inr out"
  then have "map scored_row.truncate out = scored_data K now data" by (rule rfm_analysis_scored)
  then have "map metrics_row.truncate (map scored_row.truncate out) = metrics_data K now data"
    by (simp only: scored_data_metrics)
  moreover have "metrics_row.truncate (scored_row.truncate r) = metrics_row.truncate r"
    for r :: rfm_row
    by (simp add: metrics_row.defs txn.defs scored_row.defs)
  ultimately show ?thesis
    by (simp add: comp_def)
qed

subsection \<open>Frequency and MonetaryValue\<close>





subsection \<open>Row count\<close>

lemma truncate_truncate_metrics: "txn.truncate (metrics_row.truncate r) = txn.truncate r"
  by (simp add: metrics_row.defs txn.defs)

lemma scored_data_source: "map txn.truncate (scored_data K now data) = data"
proof -
  have "map txn.truncate (map metrics_row.truncate (scored_data K now data)) = data"
    by (simp only: scored_data_metrics metrics_data_source)
  then show ?thesis
    by (simp add: comp_def truncate_truncate_metrics)
qed

lemma rfm_analysis_source: "rfm_analysis K now data = Inr out \<Longrightarrow> map txn.truncate out = data"
proof -
  assume "rfm_analysis K now data = Inr out"
  then have "map txn.truncate (map metrics_row.truncate out) = data"
    by (simp only: rfm_analysis_metrics metrics_data_source)
  then show ?thesis
    by (simp add: comp_def truncate_truncate_metrics)
qed

text \<open>
  Claim C4. Each of the two left merges returns its left frame row for row (the right
  frames come from \<open>groupby\<close>, so their keys are unique); the frame after line 62 and the
  frame after line 88 have exactly the rows of the input, in order, and so has the final
  table whenever the analysis returns one: output row \<open>i\<close> restricted to the four input
  columns is input row \<open>i\<close>.
\<close>

theorem row_count_preserved:
  "map fst (merge_left (CustomerID \<circ> fst) d (frequency_data d)) = d \<and>
   map fst (merge_left (CustomerID \<circ> fst \<circ> fst) d' (monetary_data K d)) = d' \<and>
   length (metrics_data K now data) = length data \<and>
   map txn.truncate (metrics_data K now data) = data \<and>
   length (scored_data K now data) = length data \<and>
   (\<forall>out. rfm_analysis K now data = Inr out \<longrightarrow>
      length out = length data \<and> map txn.truncate out = data)"
proof -
  have d1: "distinct (map fst (frequency_data d))"
    unfolding frequency_data_def by (rule groupby_agg_distinct)
  have d2: "distinct (map fst (monetary_data K d))"
    unfolding monetary_data_def by (rule groupby_agg_distinct)
  have m1: "map fst (merge_left (CustomerID \<circ> fst) d (frequency_data d)) = d"
    by (simp add: merge_left_unique [OF d1] comp_def)
  have m2: "map fst (merge_left (CustomerID \<circ> fst \<circ> fst) d' (monetary_data K d)) = d'"
    by (simp add: merge_left_unique [OF d2] comp_def)
  have s: "length (scored_data K now data) = length data"
    using arg_cong [OF scored_data_source [of K now data], of length] by simp
  have o: "length out = length data" if "rfm_analysis K now data = Inr out" for out
    using arg_cong [OF rfm_analysis_source [OF that], of length] by simp
  from m1 m2 s o show ?thesis
    by (simp add: metrics_data_length metrics_data_source rfm_analysis_source)
qed

text \<open>On the example table of the script the analysis returns a table, of nine rows.\<close>

theorem row_count_preserved_witness:
  "rfm_analysis exact_arith example_now example_data = Inr (projr (rfm_analysis exact_arith example_now example_data)) \<and>
   length example_data = 9 \<and>
   length (projr (rfm_analysis exact_arith example_now example_data)) = 9 \<and>
   map txn.truncate (projr (rfm_analysis exact_arith example_now example_data)) = example_data"
proof -
  have "\<not> isl (rfm_analysis exact_arith example_now example_data)"
    by code_simp
  then have run: "rfm_analysis exact_arith example_now example_data = Inr (projr (rfm_analysis exact_arith example_now example_data))"
    by simp
  have n: "length example_data = 9"
    by (simp add: example_data_def)
  from row_count_preserved [where K = exact_arith and now = example_now and data = example_data] run n show ?thesis
    by metis
qed

subsection \<open>Frequency and distinct orders\<close>

text \<open>
  Claim C5, as amended. \<open>Frequency\<close> is the number of \<open>OrderID\<close> cells that are present
  among the customer's rows. It is never less than the number of distinct order ids of the
  customer, and equals it exactly when no order id is repeated among the customer's rows;
  missing order ids are skipped by both counts.
\<close>

theorem frequency_counts_order_cells:
  "\<forall>r\<in>set (metrics_data K now data). \<forall>c. CustomerID r = Some c \<longrightarrow>
     Frequency r = Some (length (order_ids data c)) \<and>
     length (remdups (order_ids data c)) \<le> length (order_ids data c) \<and>
     (Frequency r = Some (length (remdups (order_ids data c))) \<longleftrightarrow> distinct (order_ids data c))"
proof (intro ballI allI impI)
  fix r c
  assume r: "r \<in> set (metrics_data K now data)" and c: "CustomerID r = Some c"
  have l: "length (order_rows data c) = length (order_ids data c)"
    by (simp only: count_notna_order_rows [symmetric] count_notna_order_ids)
  from r c have f: "Frequency r = Some (length (order_ids data c))"
    by (auto elim!: metrics_row_cols simp: l)
  have d: "(length (order_ids data c) = length (remdups (order_ids data c)))
      = distinct (order_ids data c)"
    by (metis length_remdups_eq remdups_id_iff_distinct)
  show "Frequency r = Some (length (order_ids data c)) \<and>
     length (remdups (order_ids data c)) \<le> length (order_ids data c) \<and>
     (Frequency r = Some (length (remdups (order_ids data c))) \<longleftrightarrow> distinct (order_ids data c))"
    unfolding f using d length_remdups_leq [of "order_ids data c"] by simp
qed

text \<open>Customer \<open>C002\<close> of the example table has the two orders \<open>O002\<close> and \<open>O005\<close>.\<close>

theorem frequency_counts_order_cells_witness:
  "metrics_data exact_arith example_now example_data ! 1 \<in> set (metrics_data exact_arith example_now example_data) \<and>
   CustomerID (metrics_data exact_arith example_now example_data ! 1) = Some ''C002'' \<and>
   order_ids example_data ''C002'' = [''O002'', ''O005''] \<and>
   Frequency (metrics_data exact_arith example_now example_data ! 1) = Some 2"
proof -
  let ?m = "metrics_data exact_arith example_now example_data"
  have mem: "?m ! 1 \<in> set ?m"
    by (rule nth_mem) (simp add: metrics_data_length example_data_def)
  have c: "CustomerID (?m ! 1) = Some ''C002''"
    by code_simp
  have o: "order_ids example_data ''C002'' = [''O002'', ''O005'']"
    by code_simp
  from frequency_counts_order_cells [of exact_arith example_now example_data] mem c
  have "Frequency (?m ! 1) = Some (length (order_ids example_data ''C002''))"
    by blast
  with mem c o show ?thesis
    by simp
qed

text \<open>Claim C5 as stated fails on a repeated order id: customer \<open>C001\<close> of
  \<open>repeated_order_data\<close> has one distinct order id and \<open>Frequency\<close> 2.\<close>

theorem frequency_distinct_orders_counterexample:
  "CustomerID (metrics_data exact_arith example_now repeated_order_data ! 0) = Some ''C001'' \<and>
   order_ids repeated_order_data ''C001'' = [''O001'', ''O001''] \<and>
   length (remdups (order_ids repeated_order_data ''C001'')) = 1 \<and>
   Frequency (metrics_data exact_arith example_now repeated_order_data ! 0) = Some 2"
  by code_simp

subsection \<open>Customer segments\<close>

text \<open>A row of the final table is a row of the scored frame with two more columns, the
  second computed from the row's own \<open>RFM_Score\<close>.\<close>

lemma rfm_analysis_rows:
  assumes "rfm_analysis K now data = Inr out" and "r \<in> set out"
  shows "scored_row.truncate r \<in> set (scored_data K now data)"
    and "RFM_Customer_Segments r = rfm_customer_segment (RFM_Score r)"
proof -
  from assms(1) obtain vs where out: "out = map (\<lambda>(r, v). scored_row.extend r
                         (rfm_row.fields v (rfm_customer_segment (RFM_Score r))))
                    (zip (scored_data K now data) vs)"
    by (auto simp: rfm_analysis_def Let_def split: sum.splits)
  from assms(2) have "scored_row.truncate r \<in> set (map scored_row.truncate out)"
    by simp
  then show "scored_row.truncate r \<in> set (scored_data K now data)"
    by (simp only: rfm_analysis_scored [OF assms(1)])
  from assms(2) show "RFM_Customer_Segments r = rfm_customer_segment (RFM_Score r)"
    unfolding out
    by (auto simp: metrics_row.defs txn.defs scored_row.defs rfm_row.defs)
qed

lemma segment_band: "rfm_customer_segment s = band_table s"
  by (simp add: rfm_customer_segment_def segment_rules_def loc_assign_def band_table_def)

text \<open>
  Claim C3. The label that the five masked assignments of lines 95 to 100 leave in a cell is
  the label of the band table of the specification for that row's \<open>RFM_Score\<close>: 9 and above
  Champions, 6 to 8 Potential Loyalists, 5 At Risk Customers, 4 Can't Lose, below 4 Lost.
  It holds for every score, and for every row of every table the analysis returns.
\<close>

theorem customer_segment_band_table:
  "rfm_customer_segment s = band_table s \<and>
   (\<forall>out. rfm_analysis K now data = Inr out \<longrightarrow>
      (\<forall>r\<in>set out. RFM_Customer_Segments r = band_table (RFM_Score r)))"
  by (simp add: segment_band rfm_analysis_rows(2))

text \<open>Row 0 of the example table of the script has \<open>RFM_Score\<close> 5 and the label of that
  band.\<close>

theorem customer_segment_band_table_witness:
  "rfm_analysis exact_arith example_now example_data = Inr (projr (rfm_analysis exact_arith example_now example_data)) \<and>
   projr (rfm_analysis exact_arith example_now example_data) ! 0
     \<in> set (projr (rfm_analysis exact_arith example_now example_data)) \<and>
   RFM_Score (projr (rfm_analysis exact_arith example_now example_data) ! 0) = 5 \<and>
   RFM_Customer_Segments (projr (rfm_analysis exact_arith example_now example_data) ! 0) = ''At Risk Customers''"
proof -
  let ?out = "projr (rfm_analysis exact_arith example_now example_data)"
  have "\<not> isl (rfm_analysis exact_arith example_now example_data)"
    by code_simp
  then have run: "rfm_analysis exact_arith example_now example_data = Inr ?out"
    by simp
  have "length ?out = 9"
    by code_simp
  then have mem: "?out ! 0 \<in> set ?out"
    by simp
  have s: "RFM_Score (?out ! 0) = 5"
    by code_simp
  have b: "band_table 5 = ''At Risk Customers''"
    by (simp add: band_table_def)
  from customer_segment_band_table [of 5 exact_arith example_now example_data] run mem
  have "RFM_Customer_Segments (?out ! 0) = band_table (RFM_Score (?out ! 0))"
    by blast
  with run mem s b show ?thesis
    by simp
qed

text \<open>
  Claim C10. For every score exactly one of the five masks of lines 96 to 100 holds, so
  the assignments leave one of the five labels and never the empty string the column
  starts with; every row of every table the analysis returns carries one of the five
  labels.
\<close>

theorem customer_segment_total:
  "length (filter (\<lambda>rule. fst rule s) segment_rules) = 1 \<and>
   rfm_customer_segment s \<noteq> '''' \<and>
   rfm_customer_segment s \<in>
     {''Champions'', ''Potential Loyalists'', ''At Risk Customers'', ''Can't Lose'', ''Lost''} \<and>
   (\<forall>out. rfm_analysis K now data = Inr out \<longrightarrow>
      (\<forall>r\<in>set out. RFM_Customer_Segments r \<in>
         {''Champions'', ''Potential Loyalists'', ''At Risk Customers'', ''Can't Lose'', ''Lost''}))"
proof -
  have one: "length (filter (\<lambda>rule. fst rule s) segment_rules) = 1"
    by (simp add: segment_rules_def)
  have five: "rfm_customer_segment s \<in>
      {''Champions'', ''Potential Loyalists'', ''At Risk Customers'', ''Can't Lose'', ''Lost''}"
    for s
    by (simp add: rfm_customer_segment_def segment_rules_def loc_assign_def)
  have ne: "rfm_customer_segment s \<noteq> ''''"
    by (simp add: rfm_customer_segment_def segment_rules_def loc_assign_def)
  have "RFM_Customer_Segments r \<in>
      {''Champions'', ''Potential Loyalists'', ''At Risk Customers'', ''Can't Lose'', ''Lost''}"
    if "rfm_analysis K now data = Inr out" "r \<in> set out" for out r
    unfolding rfm_analysis_rows(2) [OF that] by (rule five)
  with one ne five [of s] show ?thesis
    by blast
qed

text \<open>Row 1 of the two-customer table has \<open>RFM_Score\<close> 6.\<close>

theorem customer_segment_total_witness:
  "rfm_analysis exact_arith example_now small_data = Inr (projr (rfm_analysis exact_arith example_now small_data)) \<and>
   projr (rfm_analysis exact_arith example_now small_data) ! 1
     \<in> set (projr (rfm_analysis exact_arith example_now small_data)) \<and>
   RFM_Customer_Segments (projr (rfm_analysis exact_arith example_now small_data) ! 1)
     = ''Potential Loyalists''"
proof -
  let ?out = "projr (rfm_analysis exact_arith example_now small_data)"
  have "\<not> isl (rfm_analysis exact_arith example_now small_data)"
    by code_simp
  then have run: "rfm_analysis exact_arith example_now small_data = Inr ?out"
    by simp
  have "length ?out = 2"
    by code_simp
  then have mem: "?out ! 1 \<in> set ?out"
    by simp
  from customer_segment_total [of 0 exact_arith example_now small_data] run mem
  have "RFM_Customer_Segments (?out ! 1) \<in>
      {''Champions'', ''Potential Loyalists'', ''At Risk Customers'', ''Can't Lose'', ''Lost''}"
    by blast
  moreover have "RFM_Customer_Segments (?out ! 1) = ''Potential Loyalists''"
    by code_simp
  ultimately show ?thesis using run mem
    by simp
qed

subsection \<open>The RFM score\<close>

lemma scored_data_sum:
  "r \<in> set (scored_data K now data) \<Longrightarrow>
     RFM_Score r = RecencyScore r + FrequencyScore r + MonetaryScore r"
  by (auto simp: scored_data_def Let_def metrics_row.defs txn.defs scored_row.defs)

text \<open>
  Claim C6. In every row of the frame after line 88, and of the final table when the
  analysis returns one, \<open>RFM_Score\<close> is the sum of the three scores of the row; when each
  of the three lies between 1 and 5, \<open>RFM_Score\<close> lies between 3 and 15.
\<close>

theorem rfm_score_sum:
  "(\<forall>r\<in>set (scored_data K now data).
      RFM_Score r = RecencyScore r + FrequencyScore r + MonetaryScore r \<and>
      (1 \<le> RecencyScore r \<and> RecencyScore r \<le> 5 \<and> 1 \<le> FrequencyScore r \<and>
       FrequencyScore r \<le> 5 \<and> 1 \<le> MonetaryScore r \<and> MonetaryScore r \<le> 5 \<longrightarrow>
         3 \<le> RFM_Score r \<and> RFM_Score r \<le> 15)) \<and>
   (\<forall>out. rfm_analysis K now data = Inr out \<longrightarrow>
      (\<forall>r\<in>set out.
         RFM_Score r = RecencyScore r + FrequencyScore r + MonetaryScore r \<and>
         (1 \<le> RecencyScore r \<and> RecencyScore r \<le> 5 \<and> 1 \<le> FrequencyScore r \<and>
          FrequencyScore r \<le> 5 \<and> 1 \<le> MonetaryScore r \<and> MonetaryScore r \<le> 5 \<longrightarrow>
            3 \<le> RFM_Score r \<and> RFM_Score r \<le> 15)))"
proof -
  have "RFM_Score r = RecencyScore r + FrequencyScore r + MonetaryScore r"
    if "rfm_analysis K now data = Inr out" "r \<in> set out" for out r
    using scored_data_sum [OF rfm_analysis_rows(1) [OF that]]
    by (simp add: metrics_row.defs txn.defs scored_row.defs)
  then show ?thesis
    using scored_data_sum [of _ K now data] by fastforce
qed

text \<open>The two-customer table: scores 5, 1, 2 and sum 8 in row 0 after line 88; scores
  4, 1, 1 and sum 6 in row 1 of the final table.\<close>

theorem rfm_score_sum_witness:
  "scored_data exact_arith example_now small_data ! 0 \<in> set (scored_data exact_arith example_now small_data) \<and>
   RecencyScore (scored_data exact_arith example_now small_data ! 0) = 5 \<and>
   FrequencyScore (scored_data exact_arith example_now small_data ! 0) = 1 \<and>
   MonetaryScore (scored_data exact_arith example_now small_data ! 0) = 2 \<and>
   RFM_Score (scored_data exact_arith example_now small_data ! 0) = 8 \<and>
   rfm_analysis exact_arith example_now small_data = Inr (projr (rfm_analysis exact_arith example_now small_data)) \<and>
   projr (rfm_analysis exact_arith example_now small_data) ! 1
     \<in> set (projr (rfm_analysis exact_arith example_now small_data)) \<and>
   RecencyScore (projr (rfm_analysis exact_arith example_now small_data) ! 1) = 4 \<and>
   FrequencyScore (projr (rfm_analysis exact_arith example_now small_data) ! 1) = 1 \<and>
   MonetaryScore (projr (rfm_analysis exact_arith example_now small_data) ! 1) = 1 \<and>
   RFM_Score (projr (rfm_analysis exact_arith example_now small_data) ! 1) = 6"
proof -
  let ?s = "scored_data exact_arith example_now small_data"
  let ?out = "projr (rfm_analysis exact_arith example_now small_data)"
  have "length ?s = 2"
    by code_simp
  then have mem: "?s ! 0 \<in> set ?s"
    by simp
  have c: "RecencyScore (?s ! 0) = 5" "FrequencyScore (?s ! 0) = 1" "MonetaryScore (?s ! 0) = 2"
    by code_simp+
  have "\<not> isl (rfm_analysis exact_arith example_now small_data)"
    by code_simp
  then have run: "rfm_analysis exact_arith example_now small_data = Inr ?out"
    by simp
  have "length ?out = 2"
    by code_simp
  then have mem': "?out ! 1 \<in> set ?out"
    by simp
  have c': "RecencyScore (?out ! 1) = 4" "FrequencyScore (?out ! 1) = 1"
    "MonetaryScore (?out ! 1) = 1"
    by code_simp+
  from rfm_score_sum [of exact_arith example_now small_data] mem run mem'
  have "RFM_Score (?s ! 0) = RecencyScore (?s ! 0) + FrequencyScore (?s ! 0) + MonetaryScore (?s ! 0)"
    and "RFM_Score (?out ! 1) =
      RecencyScore (?out ! 1) + FrequencyScore (?out ! 1) + MonetaryScore (?out ! 1)"
    by blast+
  with mem c run mem' c' show ?thesis
    by simp
qed

subsection \<open>Determinism\<close>



text \<open>The first reading matters: a run on the two-customer table whose clock starts one
  day later computes other recencies.\<close>

lemma analysis_depends_on_instant:
  "map Recency (projr (fst (run_analysis exact_arith (ticking_clock example_now 1) small_data)))
     = [Some 65, Some 265] \<and>
   map Recency (projr (fst (run_analysis exact_arith
       (ticking_clock (example_now + ns_per_day) 1) small_data)))
     = [Some 66, Some 266]"
  by code_simp


subsection \<open>Failure of a binning step\<close>


text \<open>
  Claim C2, evaluated on \<open>stale_data\<close>. The recencies are 1, 1, 1, 2, 3, 4, 5: five distinct
  values whose first two quantile edges are both 1, so \<open>qcut\<close> raises inside
  \<open>create_rfm_score\<close> and \<open>RecencyScore\<close> is zero on every row, as the claim says. The other
  two scores are 1 on every row, every \<open>RFM_Score\<close> is 2, and the \<open>qcut\<close> of line 92, which
  no \<open>try\<close> encloses, raises on the repeated edges 2, 2, 2, 2: the analysis stops before
  \<open>Value Segment\<close> and \<open>RFM Customer Segments\<close> exist. With the first two purchases made
  6 and 7 days before (\<open>fresh_data\<close>) no binning step raises and the analysis returns a
  table. The tables are evaluated in the arithmetic without rounding; the edges that make
  the two \<open>qcut\<close> calls raise are interpolated between equal values (1 and 1, 2 and 2),
  which involves no rounding.
\<close>

theorem binning_failure_aborts_segmentation:
  "try_rfm_score exact_arith (map (map_option of_int \<circ> Recency) (metrics_data exact_arith example_now stale_data))
      recency_scores 5 = Inl ValueError \<and>
   map Recency (metrics_data exact_arith example_now stale_data)
     = [Some 1, Some 1, Some 1, Some 2, Some 3, Some 4, Some 5] \<and>
   map RecencyScore (scored_data exact_arith example_now stale_data) = [0, 0, 0, 0, 0, 0, 0] \<and>
   map FrequencyScore (scored_data exact_arith example_now stale_data) = [1, 1, 1, 1, 1, 1, 1] \<and>
   map MonetaryScore (scored_data exact_arith example_now stale_data) = [1, 1, 1, 1, 1, 1, 1] \<and>
   map RFM_Score (scored_data exact_arith example_now stale_data) = [2, 2, 2, 2, 2, 2, 2] \<and>
   rfm_analysis exact_arith example_now stale_data = Inl ValueError \<and>
   map RecencyScore (scored_data exact_arith example_now fresh_data) = [1, 1, 5, 5, 4, 3, 2] \<and>
   map RFM_Score (scored_data exact_arith example_now fresh_data) = [3, 3, 7, 7, 6, 5, 4] \<and>
   \<not> isl (rfm_analysis exact_arith example_now fresh_data)"
  by code_simp


subsection \<open>Series of fewer than five distinct values\<close>






lemma bins_to_cuts_missing:
  "bins_to_cuts x bins labels il = Inr c \<Longrightarrow> None \<in> set x \<Longrightarrow> None \<in> set c"
  by (auto simp: bins_to_cuts_def image_iff split: if_splits intro!: bexI [of _ None])

text \<open>A missing value in the series makes the \<open>try\<close> block raise.\<close>

lemma try_rfm_score_missing:
  assumes "None \<in> set s"
  shows "try_rfm_score K s L q = Inl ValueError"
proof (cases "try_rfm_score K s L q")
  case (Inl e)
  then show ?thesis by (cases e) simp
next
  case (Inr scores)
  then obtain c where c: "pd_cut K s (min q (nunique s)) (take (min q (nunique s)) L) = Inr c
      \<or> pd_qcut K s (min q (nunique s)) (take (min q (nunique s)) L) = Inr c"
    and a: "astype_int c = Inr scores"
    by (auto simp: try_rfm_score_def Let_def split: if_splits sum.splits)
  from c assms have "None \<in> set c"
    by (auto simp: pd_cut_def pd_qcut_def split: sum.splits if_splits dest: bins_to_cuts_missing)
  with a show ?thesis
    by (simp add: astype_int_def)
qed







subsection \<open>Value segments\<close>










end
